theory Spec2Isabelle
  imports Main
begin

section \<open>Strings\<close>

text \<open>
  A Python \<open>str\<close> is the list of its Unicode code points. \<open>str\<close> gives the \<open>str\<close>
  of a literal written in ASCII.
\<close>

type_synonym str = "nat list"

definition str :: "string \<Rightarrow> str" where
  "str literal = map of_char literal"

text \<open>
  The case mappings of the Unicode character database (version 14.0, the one of
  Python 3.11) are tabulated by ranges: an entry \<open>(lo, hi, stride, delta)\<close> maps every
  code point \<open>lo, lo + stride, ..., hi\<close> to itself plus \<open>delta\<close>. A code point in no
  range is mapped to itself.
\<close>

definition in_range :: "nat \<Rightarrow> nat \<times> nat \<times> nat \<times> int \<Rightarrow> bool" where
  "in_range cp r =
     (case r of (lo, hi, stride, delta) \<Rightarrow> lo \<le> cp \<and> cp \<le> hi \<and> (cp - lo) mod stride = 0)"

definition mapped :: "(nat \<times> nat \<times> nat \<times> int) list \<Rightarrow> nat \<Rightarrow> nat" where
  "mapped table cp =
     (case find (in_range cp) table of
        None \<Rightarrow> cp
      | Some (lo, hi, stride, delta) \<Rightarrow> nat (int cp + delta))"

text \<open>The code points above ASCII whose uppercase form is one other code point.\<close>

definition upper_ranges :: "(nat \<times> nat \<times> nat \<times> int) list" where
  "upper_ranges = [
    (0xB5, 0xB5, 1, 743), (0xE0, 0xF6, 1, -32), (0xF8, 0xFE, 1, -32), (0xFF, 0xFF, 1, 121),
     (0x101, 0x12F, 2, -1), (0x131, 0x131, 1, -232), (0x133, 0x137, 2, -1),
     (0x13A, 0x148, 2, -1), (0x14B, 0x177, 2, -1), (0x17A, 0x17E, 2, -1),
     (0x17F, 0x17F, 1, -300), (0x180, 0x180, 1, 195), (0x183, 0x185, 2, -1),
     (0x188, 0x188, 1, -1), (0x18C, 0x18C, 1, -1), (0x192, 0x192, 1, -1),
     (0x195, 0x195, 1, 97), (0x199, 0x199, 1, -1), (0x19A, 0x19A, 1, 163),
     (0x19E, 0x19E, 1, 130), (0x1A1, 0x1A5, 2, -1), (0x1A8, 0x1A8, 1, -1),
     (0x1AD, 0x1AD, 1, -1), (0x1B0, 0x1B0, 1, -1), (0x1B4, 0x1B6, 2, -1),
     (0x1B9, 0x1B9, 1, -1), (0x1BD, 0x1BD, 1, -1), (0x1BF, 0x1BF, 1, 56),
     (0x1C5, 0x1C5, 1, -1), (0x1C6, 0x1C6, 1, -2), (0x1C8, 0x1C8, 1, -1),
     (0x1C9, 0x1C9, 1, -2), (0x1CB, 0x1CB, 1, -1), (0x1CC, 0x1CC, 1, -2),
     (0x1CE, 0x1DC, 2, -1), (0x1DD, 0x1DD, 1, -79), (0x1DF, 0x1EF, 2, -1),
     (0x1F2, 0x1F2, 1, -1), (0x1F3, 0x1F3, 1, -2), (0x1F5, 0x1F5, 1, -1),
     (0x1F9, 0x21F, 2, -1), (0x223, 0x233, 2, -1), (0x23C, 0x23C, 1, -1),
     (0x23F, 0x240, 1, 10815), (0x242, 0x242, 1, -1), (0x247, 0x24F, 2, -1),
     (0x250, 0x250, 1, 10783), (0x251, 0x251, 1, 10780), (0x252, 0x252, 1, 10782),
     (0x253, 0x253, 1, -210), (0x254, 0x254, 1, -206), (0x256, 0x257, 1, -205),
     (0x259, 0x259, 1, -202), (0x25B, 0x25B, 1, -203), (0x25C, 0x25C, 1, 42319),
     (0x260, 0x260, 1, -205), (0x261, 0x261, 1, 42315), (0x263, 0x263, 1, -207),
     (0x265, 0x265, 1, 42280), (0x266, 0x266, 1, 42308), (0x268, 0x268, 1, -209),
     (0x269, 0x269, 1, -211), (0x26A, 0x26A, 1, 42308), (0x26B, 0x26B, 1, 10743),
     (0x26C, 0x26C, 1, 42305), (0x26F, 0x26F, 1, -211), (0x271, 0x271, 1, 10749),
     (0x272, 0x272, 1, -213), (0x275, 0x275, 1, -214), (0x27D, 0x27D, 1, 10727),
     (0x280, 0x280, 1, -218), (0x282, 0x282, 1, 42307), (0x283, 0x283, 1, -218),
     (0x287, 0x287, 1, 42282), (0x288, 0x288, 1, -218), (0x289, 0x289, 1, -69),
     (0x28A, 0x28B, 1, -217), (0x28C, 0x28C, 1, -71), (0x292, 0x292, 1, -219),
     (0x29D, 0x29D, 1, 42261), (0x29E, 0x29E, 1, 42258), (0x345, 0x345, 1, 84),
     (0x371, 0x373, 2, -1), (0x377, 0x377, 1, -1), (0x37B, 0x37D, 1, 130),
     (0x3AC, 0x3AC, 1, -38), (0x3AD, 0x3AF, 1, -37), (0x3B1, 0x3C1, 1, -32),
     (0x3C2, 0x3C2, 1, -31), (0x3C3, 0x3CB, 1, -32), (0x3CC, 0x3CC, 1, -64),
     (0x3CD, 0x3CE, 1, -63), (0x3D0, 0x3D0, 1, -62), (0x3D1, 0x3D1, 1, -57),
     (0x3D5, 0x3D5, 1, -47), (0x3D6, 0x3D6, 1, -54), (0x3D7, 0x3D7, 1, -8),
     (0x3D9, 0x3EF, 2, -1), (0x3F0, 0x3F0, 1, -86), (0x3F1, 0x3F1, 1, -80),
     (0x3F2, 0x3F2, 1, 7), (0x3F3, 0x3F3, 1, -116), (0x3F5, 0x3F5, 1, -96),
     (0x3F8, 0x3F8, 1, -1), (0x3FB, 0x3FB, 1, -1), (0x430, 0x44F, 1, -32),
     (0x450, 0x45F, 1, -80), (0x461, 0x481, 2, -1), (0x48B, 0x4BF, 2, -1),
     (0x4C2, 0x4CE, 2, -1), (0x4CF, 0x4CF, 1, -15), (0x4D1, 0x52F, 2, -1),
     (0x561, 0x586, 1, -48), (0x10D0, 0x10FA, 1, 3008), (0x10FD, 0x10FF, 1, 3008),
     (0x13F8, 0x13FD, 1, -8), (0x1C80, 0x1C80, 1, -6254), (0x1C81, 0x1C81, 1, -6253),
     (0x1C82, 0x1C82, 1, -6244), (0x1C83, 0x1C84, 1, -6242), (0x1C85, 0x1C85, 1, -6243),
     (0x1C86, 0x1C86, 1, -6236), (0x1C87, 0x1C87, 1, -6181), (0x1C88, 0x1C88, 1, 35266),
     (0x1D79, 0x1D79, 1, 35332), (0x1D7D, 0x1D7D, 1, 3814), (0x1D8E, 0x1D8E, 1, 35384),
     (0x1E01, 0x1E95, 2, -1), (0x1E9B, 0x1E9B, 1, -59), (0x1EA1, 0x1EFF, 2, -1),
     (0x1F00, 0x1F07, 1, 8), (0x1F10, 0x1F15, 1, 8), (0x1F20, 0x1F27, 1, 8),
     (0x1F30, 0x1F37, 1, 8), (0x1F40, 0x1F45, 1, 8), (0x1F51, 0x1F57, 2, 8),
     (0x1F60, 0x1F67, 1, 8), (0x1F70, 0x1F71, 1, 74), (0x1F72, 0x1F75, 1, 86),
     (0x1F76, 0x1F77, 1, 100), (0x1F78, 0x1F79, 1, 128), (0x1F7A, 0x1F7B, 1, 112),
     (0x1F7C, 0x1F7D, 1, 126), (0x1FB0, 0x1FB1, 1, 8), (0x1FBE, 0x1FBE, 1, -7205),
     (0x1FD0, 0x1FD1, 1, 8), (0x1FE0, 0x1FE1, 1, 8), (0x1FE5, 0x1FE5, 1, 7),
     (0x214E, 0x214E, 1, -28), (0x2170, 0x217F, 1, -16), (0x2184, 0x2184, 1, -1),
     (0x24D0, 0x24E9, 1, -26), (0x2C30, 0x2C5F, 1, -48), (0x2C61, 0x2C61, 1, -1),
     (0x2C65, 0x2C65, 1, -10795), (0x2C66, 0x2C66, 1, -10792), (0x2C68, 0x2C6C, 2, -1),
     (0x2C73, 0x2C73, 1, -1), (0x2C76, 0x2C76, 1, -1), (0x2C81, 0x2CE3, 2, -1),
     (0x2CEC, 0x2CEE, 2, -1), (0x2CF3, 0x2CF3, 1, -1), (0x2D00, 0x2D25, 1, -7264),
     (0x2D27, 0x2D27, 1, -7264), (0x2D2D, 0x2D2D, 1, -7264), (0xA641, 0xA66D, 2, -1),
     (0xA681, 0xA69B, 2, -1), (0xA723, 0xA72F, 2, -1), (0xA733, 0xA76F, 2, -1),
     (0xA77A, 0xA77C, 2, -1), (0xA77F, 0xA787, 2, -1), (0xA78C, 0xA78C, 1, -1),
     (0xA791, 0xA793, 2, -1), (0xA794, 0xA794, 1, 48), (0xA797, 0xA7A9, 2, -1),
     (0xA7B5, 0xA7C3, 2, -1), (0xA7C8, 0xA7CA, 2, -1), (0xA7D1, 0xA7D1, 1, -1),
     (0xA7D7, 0xA7D9, 2, -1), (0xA7F6, 0xA7F6, 1, -1), (0xAB53, 0xAB53, 1, -928),
     (0xAB70, 0xABBF, 1, -38864), (0xFF41, 0xFF5A, 1, -32), (0x10428, 0x1044F, 1, -40),
     (0x104D8, 0x104FB, 1, -40), (0x10597, 0x105BB, 2, -39), (0x10598, 0x105A0, 2, -39),
     (0x105A4, 0x105B0, 2, -39), (0x105B4, 0x105B8, 2, -39), (0x105BC, 0x105BC, 1, -39),
     (0x10CC0, 0x10CF2, 1, -64), (0x118C0, 0x118DF, 1, -32), (0x16E60, 0x16E7F, 1, -32),
     (0x1E922, 0x1E943, 1, -34)]"

text \<open>The code points whose uppercase form has several code points, with that form.\<close>

definition upper_special :: "(nat \<times> nat list) list" where
  "upper_special = [
    (0xDF, [0x53, 0x53]), (0x149, [0x2BC, 0x4E]), (0x1F0, [0x4A, 0x30C]),
     (0x390, [0x399, 0x308, 0x301]), (0x3B0, [0x3A5, 0x308, 0x301]), (0x587, [0x535, 0x552]),
     (0x1E96, [0x48, 0x331]), (0x1E97, [0x54, 0x308]), (0x1E98, [0x57, 0x30A]),
     (0x1E99, [0x59, 0x30A]), (0x1E9A, [0x41, 0x2BE]), (0x1F50, [0x3A5, 0x313]),
     (0x1F52, [0x3A5, 0x313, 0x300]), (0x1F54, [0x3A5, 0x313, 0x301]),
     (0x1F56, [0x3A5, 0x313, 0x342]), (0x1F80, [0x1F08, 0x399]), (0x1F81, [0x1F09, 0x399]),
     (0x1F82, [0x1F0A, 0x399]), (0x1F83, [0x1F0B, 0x399]), (0x1F84, [0x1F0C, 0x399]),
     (0x1F85, [0x1F0D, 0x399]), (0x1F86, [0x1F0E, 0x399]), (0x1F87, [0x1F0F, 0x399]),
     (0x1F88, [0x1F08, 0x399]), (0x1F89, [0x1F09, 0x399]), (0x1F8A, [0x1F0A, 0x399]),
     (0x1F8B, [0x1F0B, 0x399]), (0x1F8C, [0x1F0C, 0x399]), (0x1F8D, [0x1F0D, 0x399]),
     (0x1F8E, [0x1F0E, 0x399]), (0x1F8F, [0x1F0F, 0x399]), (0x1F90, [0x1F28, 0x399]),
     (0x1F91, [0x1F29, 0x399]), (0x1F92, [0x1F2A, 0x399]), (0x1F93, [0x1F2B, 0x399]),
     (0x1F94, [0x1F2C, 0x399]), (0x1F95, [0x1F2D, 0x399]), (0x1F96, [0x1F2E, 0x399]),
     (0x1F97, [0x1F2F, 0x399]), (0x1F98, [0x1F28, 0x399]), (0x1F99, [0x1F29, 0x399]),
     (0x1F9A, [0x1F2A, 0x399]), (0x1F9B, [0x1F2B, 0x399]), (0x1F9C, [0x1F2C, 0x399]),
     (0x1F9D, [0x1F2D, 0x399]), (0x1F9E, [0x1F2E, 0x399]), (0x1F9F, [0x1F2F, 0x399]),
     (0x1FA0, [0x1F68, 0x399]), (0x1FA1, [0x1F69, 0x399]), (0x1FA2, [0x1F6A, 0x399]),
     (0x1FA3, [0x1F6B, 0x399]), (0x1FA4, [0x1F6C, 0x399]), (0x1FA5, [0x1F6D, 0x399]),
     (0x1FA6, [0x1F6E, 0x399]), (0x1FA7, [0x1F6F, 0x399]), (0x1FA8, [0x1F68, 0x399]),
     (0x1FA9, [0x1F69, 0x399]), (0x1FAA, [0x1F6A, 0x399]), (0x1FAB, [0x1F6B, 0x399]),
     (0x1FAC, [0x1F6C, 0x399]), (0x1FAD, [0x1F6D, 0x399]), (0x1FAE, [0x1F6E, 0x399]),
     (0x1FAF, [0x1F6F, 0x399]), (0x1FB2, [0x1FBA, 0x399]), (0x1FB3, [0x391, 0x399]),
     (0x1FB4, [0x386, 0x399]), (0x1FB6, [0x391, 0x342]), (0x1FB7, [0x391, 0x342, 0x399]),
     (0x1FBC, [0x391, 0x399]), (0x1FC2, [0x1FCA, 0x399]), (0x1FC3, [0x397, 0x399]),
     (0x1FC4, [0x389, 0x399]), (0x1FC6, [0x397, 0x342]), (0x1FC7, [0x397, 0x342, 0x399]),
     (0x1FCC, [0x397, 0x399]), (0x1FD2, [0x399, 0x308, 0x300]),
     (0x1FD3, [0x399, 0x308, 0x301]), (0x1FD6, [0x399, 0x342]),
     (0x1FD7, [0x399, 0x308, 0x342]), (0x1FE2, [0x3A5, 0x308, 0x300]),
     (0x1FE3, [0x3A5, 0x308, 0x301]), (0x1FE4, [0x3A1, 0x313]), (0x1FE6, [0x3A5, 0x342]),
     (0x1FE7, [0x3A5, 0x308, 0x342]), (0x1FF2, [0x1FFA, 0x399]), (0x1FF3, [0x3A9, 0x399]),
     (0x1FF4, [0x38F, 0x399]), (0x1FF6, [0x3A9, 0x342]), (0x1FF7, [0x3A9, 0x342, 0x399]),
     (0x1FFC, [0x3A9, 0x399]), (0xFB00, [0x46, 0x46]), (0xFB01, [0x46, 0x49]),
     (0xFB02, [0x46, 0x4C]), (0xFB03, [0x46, 0x46, 0x49]), (0xFB04, [0x46, 0x46, 0x4C]),
     (0xFB05, [0x53, 0x54]), (0xFB06, [0x53, 0x54]), (0xFB13, [0x544, 0x546]),
     (0xFB14, [0x544, 0x535]), (0xFB15, [0x544, 0x53B]), (0xFB16, [0x54E, 0x546]),
     (0xFB17, [0x544, 0x53D])]"

text \<open>
  \<open>str.upper()\<close> replaces every code point by its uppercase form, whatever stands
  around it.
\<close>

definition upper_char :: "nat \<Rightarrow> nat list" where
  "upper_char cp =
     (if cp < 128 then [if 97 \<le> cp \<and> cp \<le> 122 then cp - 32 else cp]
      else case map_of upper_special cp of
             Some form \<Rightarrow> form
           | None \<Rightarrow> [mapped upper_ranges cp])"

definition upper :: "str \<Rightarrow> str" where
  "upper s = concat (map upper_char s)"

text \<open>
  \<open>str.strip()\<close> removes the leading and the trailing whitespace; these are the code
  points that Python counts as whitespace.
\<close>

definition is_space :: "nat \<Rightarrow> bool" where
  "is_space cp = (cp \<in> set [0x09, 0x0A, 0x0B, 0x0C, 0x0D, 0x1C, 0x1D, 0x1E, 0x1F, 0x20, 0x85,
                             0xA0, 0x1680, 0x2000, 0x2001, 0x2002, 0x2003, 0x2004, 0x2005,
                             0x2006, 0x2007, 0x2008, 0x2009, 0x200A, 0x2028, 0x2029, 0x202F,
                             0x205F, 0x3000])"

definition strip :: "str \<Rightarrow> str" where
  "strip s = rev (dropWhile is_space (rev (dropWhile is_space s)))"

text \<open>\<open>" ".join(words)\<close>\<close>

fun join_space :: "str list \<Rightarrow> str" where
  "join_space [] = []"
| "join_space [w] = w"
| "join_space (w # ws) = w @ [0x20] @ join_space ws"

section \<open>Configuration\<close>

text \<open>
  The module-level constants of bot.py. \<open>KINOSPEEDS\<close> is the global name that the
  handler \<open>start\<close> interpolates into the join link; bot.py never binds it, which is the
  value \<open>None\<close> here (looking the name up raises \<open>NameError\<close>). \<open>Some k\<close> stands for
  a module in which the name is bound, \<open>k\<close> being its formatted text.
\<close>

record config =
  MANDATORY_CHANNELS :: "int list"
  ADMIN_IDS :: "int list"
  KINOSPEEDS :: "str option"

text \<open>The configuration as bot.py has it.\<close>

definition bot_py :: config where
  "bot_py = \<lparr> MANDATORY_CHANNELS = [-1001234567890], ADMIN_IDS = [1350513135],
              KINOSPEEDS = None \<rparr>"

section \<open>Exceptions, platform, messages\<close>

text \<open>
  \<open>BadRequest\<close> is the one exception class that \<open>check_membership\<close> catches. Every
  other error that the call to the platform can raise (the other classes of
  \<open>telegram.error\<close>, such as Forbidden or TimedOut) is \<open>TelegramError\<close> with its name.
  \<open>NameError\<close> and \<open>AttributeError\<close> carry the name that could not be resolved.
\<close>

datatype exn = BadRequest | TelegramError string | NameError string | AttributeError string

text \<open>
  The members of the enumeration \<open>telegram.constants.ChatMemberStatus\<close> of the library
  that bot.py pins (python-telegram-bot 21): the owner of a chat is \<open>OWNER\<close>, a banned
  user is \<open>BANNED\<close>.
\<close>

datatype ChatMemberStatus = ADMINISTRATOR | OWNER | BANNED | LEFT | MEMBER | RESTRICTED

text \<open>
  \<open>ChatMemberStatus.name\<close>: the member of that name; a name that the enumeration does
  not have raises \<open>AttributeError\<close>.
\<close>

definition ChatMemberStatus_attribute :: "string \<Rightarrow> exn + ChatMemberStatus" where
  "ChatMemberStatus_attribute name =
     (case map_of [(''ADMINISTRATOR'', ADMINISTRATOR), (''OWNER'', OWNER), (''BANNED'', BANNED),
                   (''LEFT'', LEFT), (''MEMBER'', MEMBER), (''RESTRICTED'', RESTRICTED)] name of
        Some member \<Rightarrow> Inr member
      | None \<Rightarrow> Inl (AttributeError name))"

text \<open>
  \<open>context.bot.get_chat_member(channel_id, user_id)\<close>: the platform answers with the
  member's status or raises.
\<close>

type_synonym bot = "int \<Rightarrow> int \<Rightarrow> exn + ChatMemberStatus"

text \<open>
  An inline keyboard button. Every button of bot.py carries the same literal label, so
  only its link is kept.
\<close>

datatype InlineKeyboardButton = InlineKeyboardButton (url: str)

text \<open>
  The outbound messages, one constructor for each call of \<open>reply_text\<close> or
  \<open>reply_video\<close> in bot.py; the arguments are the values interpolated into the message.
  \<^item> \<open>Membership_confirmed\<close>: start, the confirmation and the prompt for a code;
  \<^item> \<open>Join_channels\<close>: start, the instruction to join, with its keyboard;
  \<^item> \<open>Reply_video\<close>: handle_code, \<open>reply_video\<close> of the file id, captioned with the
    title and the upper-cased code;
  \<^item> \<open>Code_not_found\<close>: handle_code, no row for the code;
  \<^item> \<open>Upload_needs_video\<close>, \<open>Upload_usage\<close>: upload, the two usage hints;
  \<^item> \<open>Video_saved\<close>: upload, the confirmation with the upper-cased code and the title;
  \<^item> \<open>Delete_usage\<close>, \<open>Video_deleted\<close>, \<open>Delete_not_found\<close>: delete.
\<close>

datatype reply =
    Membership_confirmed
  | Join_channels "InlineKeyboardButton list list"
  | Reply_video str str str
  | Code_not_found
  | Upload_needs_video
  | Upload_usage
  | Video_saved str str
  | Delete_usage
  | Video_deleted str
  | Delete_not_found

section \<open>Updates\<close>

text \<open>
  A message: its text, the file id of its video and the message it replies to, each of
  which may be absent.
\<close>

datatype Message =
  Message (message_text: "str option") (video: "str option") (reply_to_message: "Message option")

text \<open>The handler that \<open>main\<close> registers for an update, if any.\<close>

datatype route = Start_command | Upload_command | Delete_command | Text_message | Unhandled

text \<open>
  What a handler reads of \<open>update\<close> and \<open>context\<close>:
  \<^item> \<open>route\<close>: which registered handler takes the update;
  \<^item> \<open>effective_user\<close>: the id of \<open>update.effective_user\<close>, if there is one;
  \<^item> \<open>message\<close>: \<open>update.message\<close>, which is \<open>None\<close> for an update of another
    kind, such as an edited message;
  \<^item> \<open>args\<close>: \<open>context.args\<close>, the words after the command.
\<close>

record update =
  route :: route
  effective_user :: "int option"
  message :: "Message option"
  args :: "str list"

section \<open>State\<close>

text \<open>
  A row of the table \<open>videos (code TEXT PRIMARY KEY, title TEXT, file_id TEXT)\<close>.
  The table is the list of its rows; a table that was never created is the empty list,
  which is what \<open>CREATE TABLE IF NOT EXISTS\<close> makes of it at every opening.
\<close>

type_synonym row = "str \<times> str \<times> str"

text \<open>The statements the database layer executes on the table.\<close>

datatype sql = Replace row | Delete str | Select str

text \<open>
  Everything the handlers read and write:
  \<^item> \<open>videos\<close>: the rows of the table;
  \<^item> \<open>statements\<close>: the statements executed on it so far, oldest first;
  \<^item> \<open>user_data\<close>: the dictionary \<open>context.user_data\<close> of every user id;
  \<^item> \<open>queries\<close>: the calls of \<open>get_chat_member\<close> issued so far, as
    (channel id, user id), oldest first;
  \<^item> \<open>sent\<close>: the outbound messages, oldest first.
\<close>

record state =
  videos :: "row list"
  statements :: "sql list"
  user_data :: "int \<Rightarrow> (string \<rightharpoonup> bool)"
  queries :: "(int \<times> int) list"
  sent :: "reply list"

section \<open>Database layer\<close>

text \<open>
  \<open>REPLACE INTO\<close> deletes every row that conflicts on the primary key and inserts the
  new one.
\<close>

definition add_video :: "str \<Rightarrow> str \<Rightarrow> str \<Rightarrow> state \<Rightarrow> state" where
  "add_video code title file_id s =
     (let r = (upper code, title, file_id)
      in s\<lparr> videos := filter (\<lambda>x. fst x \<noteq> upper code) (videos s) @ [r],
             statements := statements s @ [Replace r] \<rparr>)"

text \<open>\<open>cur.rowcount\<close> is the number of rows the \<open>DELETE\<close> removed.\<close>

definition delete_video :: "str \<Rightarrow> state \<Rightarrow> bool \<times> state" where
  "delete_video code s =
     (let rowcount = length (filter (\<lambda>x. fst x = upper code) (videos s))
      in (rowcount > 0,
          s\<lparr> videos := filter (\<lambda>x. fst x \<noteq> upper code) (videos s),
             statements := statements s @ [Delete (upper code)] \<rparr>))"

text \<open>\<open>fetchone\<close> gives the first selected row as (file_id, title), or \<open>None\<close>.\<close>

definition fetch_video :: "str \<Rightarrow> state \<Rightarrow> (str \<times> str) option \<times> state" where
  "fetch_video code s =
     (map_option (\<lambda>(c, title, file_id). (file_id, title))
        (find (\<lambda>x. fst x = upper code) (videos s)),
      s\<lparr> statements := statements s @ [Select (upper code)] \<rparr>)"

section \<open>Helpers\<close>

definition is_admin :: "config \<Rightarrow> int \<Rightarrow> bool" where
  "is_admin cfg user_id = (user_id \<in> set (ADMIN_IDS cfg))"

text \<open>
  The tuple \<open>(ChatMemberStatus.MEMBER, ChatMemberStatus.CREATOR,
  ChatMemberStatus.ADMINISTRATOR)\<close> that \<open>check_membership\<close> builds, left to right, each
  time it compares a status.
\<close>

definition accepted_statuses :: "exn + ChatMemberStatus list" where
  "accepted_statuses =
     (case ChatMemberStatus_attribute ''MEMBER'' of
        Inl e \<Rightarrow> Inl e
      | Inr a \<Rightarrow>
          (case ChatMemberStatus_attribute ''CREATOR'' of
             Inl e \<Rightarrow> Inl e
           | Inr b \<Rightarrow>
               (case ChatMemberStatus_attribute ''ADMINISTRATOR'' of
                  Inl e \<Rightarrow> Inl e
                | Inr c \<Rightarrow> Inr [a, b, c])))"

text \<open>
  The clause \<open>except BadRequest: return False\<close> around the body of the loop: any other
  exception leaves \<open>check_membership\<close>.
\<close>

definition except_BadRequest :: "exn \<Rightarrow> state \<Rightarrow> (exn + bool) \<times> state" where
  "except_BadRequest e s = (if e = BadRequest then (Inr False, s) else (Inl e, s))"

text \<open>The loop of \<open>check_membership\<close> over the channels still to be checked.\<close>

fun check_membership_loop :: "bot \<Rightarrow> int \<Rightarrow> int list \<Rightarrow> state \<Rightarrow> (exn + bool) \<times> state" where
  "check_membership_loop get_chat_member user_id [] s = (Inr True, s)"
| "check_membership_loop get_chat_member user_id (channel_id # rest) s =
     (let s' = s\<lparr> queries := queries s @ [(channel_id, user_id)] \<rparr>
      in case get_chat_member channel_id user_id of
           Inl e \<Rightarrow> except_BadRequest e s'
         | Inr status \<Rightarrow>
             (case accepted_statuses of
                Inl e \<Rightarrow> except_BadRequest e s'
              | Inr accepted \<Rightarrow>
                  if status \<notin> set accepted then (Inr False, s')
                  else check_membership_loop get_chat_member user_id rest s'))"

definition check_membership :: "config \<Rightarrow> bot \<Rightarrow> int \<Rightarrow> state \<Rightarrow> (exn + bool) \<times> state" where
  "check_membership cfg get_chat_member user_id s =
     check_membership_loop get_chat_member user_id (MANDATORY_CHANNELS cfg) s"

section \<open>Handlers\<close>

text \<open>
  A handler returns the exception that left it, if any, and the state it leaves behind.
  \<open>reply_to\<close> is \<open>update.message.reply_text\<close> or \<open>reply_video\<close>: without a message
  the attribute is looked up on \<open>None\<close>.
\<close>

definition reply_with :: "reply \<Rightarrow> state \<Rightarrow> state" where
  "reply_with r s = s\<lparr> sent := sent s @ [r] \<rparr>"

definition reply_to :: "update \<Rightarrow> reply \<Rightarrow> state \<Rightarrow> exn option \<times> state" where
  "reply_to u r s =
     (case message u of
        None \<Rightarrow> (Some (AttributeError ''reply_text''), s)
      | Some m \<Rightarrow> (None, reply_with r s))"

text \<open>
  The list comprehension of \<open>start\<close> that builds one keyboard row for each mandatory
  channel. The link of every button is formatted from the global \<open>KINOSPEEDS\<close>; the loop
  variable \<open>channel\<close> is not used.
\<close>

fun join_buttons :: "str option \<Rightarrow> int list \<Rightarrow> exn + InlineKeyboardButton list list" where
  "join_buttons kinospeeds [] = Inr []"
| "join_buttons kinospeeds (channel # rest) =
     (case kinospeeds of
        None \<Rightarrow> Inl (NameError ''KINOSPEEDS'')
      | Some k \<Rightarrow>
          (case join_buttons kinospeeds rest of
             Inl e \<Rightarrow> Inl e
           | Inr rows \<Rightarrow> Inr ([InlineKeyboardButton (str ''https://t.me/c/'' @ k)] # rows)))"

text \<open>The one assignment to the session in bot.py: \<open>context.user_data["verified"] = True\<close>.\<close>

definition set_verified :: "int \<Rightarrow> state \<Rightarrow> state" where
  "set_verified user_id s =
     s\<lparr> user_data := (user_data s)(user_id := (user_data s user_id)(''verified'' \<mapsto> True)) \<rparr>"

definition start :: "config \<Rightarrow> bot \<Rightarrow> update \<Rightarrow> state \<Rightarrow> exn option \<times> state" where
  "start cfg get_chat_member u s =
     (case effective_user u of
        None \<Rightarrow> (None, s)
      | Some user_id \<Rightarrow>
          (case check_membership cfg get_chat_member user_id s of
             (Inl e, s1) \<Rightarrow> (Some e, s1)
           | (Inr True, s1) \<Rightarrow>
               (case reply_to u Membership_confirmed s1 of
                  (Some e, s2) \<Rightarrow> (Some e, s2)
                | (None, s2) \<Rightarrow> (None, set_verified user_id s2))
           | (Inr False, s1) \<Rightarrow>
               (case join_buttons (KINOSPEEDS cfg) (MANDATORY_CHANNELS cfg) of
                  Inl e \<Rightarrow> (Some e, s1)
                | Inr buttons \<Rightarrow> reply_to u (Join_channels buttons) s1)))"

text \<open>
  \<open>context.user_data.get("verified")\<close> is truthy when the key is bound to \<open>True\<close>.
  For an update without a user the framework's \<open>context.user_data\<close> is \<open>None\<close>, whose
  \<open>get\<close> raises.
\<close>

definition verified :: "state \<Rightarrow> int \<Rightarrow> bool" where
  "verified s user_id = (case user_data s user_id ''verified'' of None \<Rightarrow> False | Some b \<Rightarrow> b)"

definition handle_code :: "update \<Rightarrow> state \<Rightarrow> exn option \<times> state" where
  "handle_code u s =
     (case effective_user u of
        None \<Rightarrow> (Some (AttributeError ''get''), s)
      | Some user_id \<Rightarrow>
          if \<not> verified s user_id then (None, s)
          else
            (case message u of
               None \<Rightarrow> (Some (AttributeError ''text''), s)
             | Some m \<Rightarrow>
                 (case message_text m of
                    None \<Rightarrow> (Some (AttributeError ''strip''), s)
                  | Some t \<Rightarrow>
                      (let code = strip t
                       in case fetch_video code s of
                            (Some (file_id, title), s1) \<Rightarrow>
                              reply_to u (Reply_video file_id title (upper code)) s1
                          | (None, s1) \<Rightarrow> reply_to u Code_not_found s1))))"

section \<open>Admin handlers\<close>

definition upload :: "config \<Rightarrow> update \<Rightarrow> state \<Rightarrow> exn option \<times> state" where
  "upload cfg u s =
     (case effective_user u of
        None \<Rightarrow> (None, s)
      | Some user_id \<Rightarrow>
          if \<not> is_admin cfg user_id then (None, s)
          else
            (case message u of
               None \<Rightarrow> (Some (AttributeError ''reply_to_message''), s)
             | Some m \<Rightarrow>
                 (case reply_to_message m of
                    None \<Rightarrow> reply_to u Upload_needs_video s
                  | Some replied \<Rightarrow>
                      (case video replied of
                         None \<Rightarrow> reply_to u Upload_needs_video s
                       | Some file_id \<Rightarrow>
                           (case args u of
                              code # w # ws \<Rightarrow>
                                (let title = join_space (w # ws)
                                 in reply_to u (Video_saved (upper code) title)
                                      (add_video code title file_id s))
                            | _ \<Rightarrow> reply_to u Upload_usage s)))))"

definition delete :: "config \<Rightarrow> update \<Rightarrow> state \<Rightarrow> exn option \<times> state" where
  "delete cfg u s =
     (case effective_user u of
        None \<Rightarrow> (None, s)
      | Some user_id \<Rightarrow>
          if \<not> is_admin cfg user_id then (None, s)
          else
            (case args u of
               [code] \<Rightarrow>
                 (case delete_video code s of
                    (True, s1) \<Rightarrow> reply_to u (Video_deleted (upper code)) s1
                  | (False, s1) \<Rightarrow> reply_to u Delete_not_found s1)
             | _ \<Rightarrow> reply_to u Delete_usage s))"

section \<open>Main\<close>

text \<open>
  The handlers as \<open>main\<close> registers them: one update, taken by the handler of its route
  from the state it finds.
\<close>

definition dispatch :: "config \<Rightarrow> bot \<Rightarrow> update \<Rightarrow> state \<Rightarrow> exn option \<times> state" where
  "dispatch cfg get_chat_member u s =
     (case route u of
        Start_command \<Rightarrow> start cfg get_chat_member u s
      | Upload_command \<Rightarrow> upload cfg u s
      | Delete_command \<Rightarrow> delete cfg u s
      | Text_message \<Rightarrow> handle_code u s
      | Unhandled \<Rightarrow> (None, s))"

text \<open>The state of a freshly started process over the stored table.\<close>

definition initial :: "row list \<Rightarrow> state" where
  "initial rows = \<lparr> videos = rows, statements = [], user_data = (\<lambda>_. Map.empty),
                    queries = [], sent = [] \<rparr>"

section \<open>Notions of the specification\<close>





section \<open>Properties of the database layer\<close>



lemma find_replaced:
  "find (\<lambda>x. fst x = k) (filter (\<lambda>x. fst x \<noteq> k) rows @ [(k, t, m)]) = Some (k, t, m)"
  by (induction rows) auto

lemma filter_replaced:
  "filter (\<lambda>x. fst x = k) (filter (\<lambda>x. fst x \<noteq> k) rows @ [(k, t, m)]) = [(k, t, m)]"
  by (induction rows) auto

lemma fetch_after_add:
  "upper c' = upper c \<Longrightarrow> fst (fetch_video c' (add_video c t m s)) = Some (m, t)"
  by (simp add: fetch_video_def add_video_def Let_def find_replaced)

lemma videos_after_add:
  "videos (add_video c t m s) = filter (\<lambda>x. fst x \<noteq> upper c) (videos s) @ [(upper c, t, m)]"
  by (simp add: add_video_def Let_def)




text \<open>
  C5: after two writes under the same code, the code fetches the file id and the title of
  the second write, and the table holds exactly one row with that code, the second one.
\<close>

theorem put_put_get_last_write_wins:
  "fst (fetch_video c (add_video c t2 m2 (add_video c t1 m1 s))) = Some (m2, t2) \<and>
   filter (\<lambda>x. fst x = upper c) (videos (add_video c t2 m2 (add_video c t1 m1 s))) =
     [(upper c, t2, m2)]"
  by (simp add: fetch_after_add videos_after_add filter_replaced)

text \<open>
  C6: deleting a code whose upper-cased form is the code of no row returns \<open>False\<close>, and
  the state afterwards differs from the state before only by the record of the executed
  \<open>DELETE\<close> statement: the rows of the table are the same.
\<close>

theorem delete_absent_code:
  "upper c \<notin> fst ` set (videos s) \<Longrightarrow>
   delete_video c s = (False, s\<lparr> statements := statements s @ [Delete (upper c)] \<rparr>) \<and>
   videos (snd (delete_video c s)) = videos s"
proof -
  assume absent: "upper c \<notin> fst ` set (videos s)"
  then have keep: "filter (\<lambda>x. fst x \<noteq> upper c) (videos s) = videos s"
    by (force simp: filter_id_conv)
  have none: "filter (\<lambda>x. fst x = upper c) (videos s) = []"
    using absent by (force simp: filter_empty_conv)
  show ?thesis
    by (simp add: delete_video_def Let_def keep none)
qed

theorem delete_absent_code_witness:
  "upper (str ''y7'') \<notin>
     fst ` set (videos (initial [(str ''X42'', str ''Demo Clip'', str ''file-1'')])) \<and>
   fst (delete_video (str ''y7'') (initial [(str ''X42'', str ''Demo Clip'', str ''file-1'')])) =
     False \<and>
   videos (snd (delete_video (str ''y7'')
                  (initial [(str ''X42'', str ''Demo Clip'', str ''file-1'')]))) =
     [(str ''X42'', str ''Demo Clip'', str ''file-1'')]"
proof -
  have h: "upper (str ''y7'') \<notin>
             fst ` set (videos (initial [(str ''X42'', str ''Demo Clip'', str ''file-1'')]))"
    by (simp add: initial_def upper_def upper_char_def str_def)
  show ?thesis
    using h delete_absent_code[OF h] by (simp add: initial_def)
qed

section \<open>Properties of the membership check\<close>

lemma accepted_statuses_raises: "accepted_statuses = Inl (AttributeError ''CREATOR'')"
  by (simp add: accepted_statuses_def ChatMemberStatus_attribute_def)

lemma loop_first_channel:
  "fst (check_membership_loop g uid (ch # rest) s) =
     (case g ch uid of
        Inl e \<Rightarrow> if e = BadRequest then Inr False else Inl e
      | Inr status \<Rightarrow> Inl (AttributeError ''CREATOR''))"
  by (simp add: Let_def accepted_statuses_raises except_BadRequest_def split: sum.splits)

lemma loop_true_iff: "fst (check_membership_loop g uid chs s) = Inr True \<longleftrightarrow> chs = []"
  by (cases chs)
     (auto simp: Let_def accepted_statuses_raises except_BadRequest_def split: sum.splits)

lemma loop_keeps:
  "user_data (snd (check_membership_loop g uid chs s)) = user_data s \<and>
   videos (snd (check_membership_loop g uid chs s)) = videos s \<and>
   statements (snd (check_membership_loop g uid chs s)) = statements s \<and>
   sent (snd (check_membership_loop g uid chs s)) = sent s"
  by (cases chs)
     (auto simp: Let_def accepted_statuses_raises except_BadRequest_def split: sum.splits)

text \<open>
  C2: with the channels \<open>[A, B]\<close> and a user who is a regular member of both,
  \<open>check_membership\<close> does not return \<open>True\<close>: comparing the status answered for A
  evaluates \<open>ChatMemberStatus.CREATOR\<close>, which the enumeration does not have, and the
  \<open>AttributeError\<close> leaves the function. The same happens when the user is a member of A
  and has left B, where the result should be \<open>False\<close>.
\<close>

theorem check_membership_raises_on_status:
  "fst (check_membership
          \<lparr> MANDATORY_CHANNELS = [-1001, -1002], ADMIN_IDS = [], KINOSPEEDS = None \<rparr>
          (\<lambda>channel_id user_id. Inr MEMBER) 7 (initial []))
     = Inl (AttributeError ''CREATOR'') \<and>
   fst (check_membership
          \<lparr> MANDATORY_CHANNELS = [-1001, -1002], ADMIN_IDS = [], KINOSPEEDS = None \<rparr>
          (\<lambda>channel_id user_id. if channel_id = -1001 then Inr MEMBER else Inr LEFT) 7
          (initial []))
     = Inl (AttributeError ''CREATOR'')"
  by (simp add: check_membership_def Let_def accepted_statuses_raises except_BadRequest_def)

text \<open>
  C3, as the claim states it, fails: where the query raises an exception other than
  \<open>BadRequest\<close>, \<open>check_membership\<close> does not return \<open>False\<close>; the exception leaves it.
\<close>

theorem check_membership_other_exception:
  "fst (check_membership bot_py (\<lambda>channel_id user_id. Inl (TelegramError ''Forbidden'')) 7
          (initial [])) = Inl (TelegramError ''Forbidden'') \<and>
   fst (check_membership bot_py (\<lambda>channel_id user_id. Inl (TelegramError ''Forbidden'')) 7
          (initial [])) \<noteq> Inr False"
  by (simp add: check_membership_def bot_py_def Let_def except_BadRequest_def)

text \<open>
  C3, amended: when the query for a configured channel raises, \<open>check_membership\<close> never
  returns \<open>True\<close>. When that channel is the first configured one, \<open>check_membership\<close>
  returns \<open>False\<close> if the exception is \<open>BadRequest\<close>, and is left by the exception
  itself if it is any other.
\<close>

theorem check_membership_fails_closed:
  "ch \<in> set (MANDATORY_CHANNELS cfg) \<Longrightarrow> g ch uid = Inl e \<Longrightarrow>
   fst (check_membership cfg g uid s) \<noteq> Inr True \<and>
   ((\<exists>rest. MANDATORY_CHANNELS cfg = ch # rest) \<longrightarrow>
      fst (check_membership cfg g uid s) = (if e = BadRequest then Inr False else Inl e))"
proof -
  assume ch: "ch \<in> set (MANDATORY_CHANNELS cfg)" and raises: "g ch uid = Inl e"
  have "MANDATORY_CHANNELS cfg \<noteq> []"
    using ch by auto
  then have not_true: "fst (check_membership cfg g uid s) \<noteq> Inr True"
    by (simp add: check_membership_def loop_true_iff)
  have first: "fst (check_membership cfg g uid s) = (if e = BadRequest then Inr False else Inl e)"
    if "MANDATORY_CHANNELS cfg = ch # rest" for rest
    using that raises by (simp add: check_membership_def Let_def except_BadRequest_def)
  show ?thesis
    using not_true first by blast
qed

theorem check_membership_fails_closed_witness:
  "fst (check_membership \<lparr> MANDATORY_CHANNELS = [-1001, -1002], ADMIN_IDS = [], KINOSPEEDS = None \<rparr>
          (\<lambda>channel_id user_id. if channel_id = -1001 then Inl BadRequest else Inr MEMBER) 7
          (initial [])) = Inr False"
  using check_membership_fails_closed
          [of "-1001" "\<lparr> MANDATORY_CHANNELS = [-1001, -1002], ADMIN_IDS = [], KINOSPEEDS = None \<rparr>"
              "\<lambda>channel_id user_id. if channel_id = -1001 then Inl BadRequest else Inr MEMBER"
              7 BadRequest "initial []"]
  by simp

text \<open>
  C10: with no mandatory channel configured, \<open>check_membership\<close> returns \<open>True\<close> and
  leaves the state as it was; in particular it issues no query to the platform.
\<close>

theorem check_membership_no_channels:
  "MANDATORY_CHANNELS cfg = [] \<Longrightarrow>
   check_membership cfg g uid s = (Inr True, s) \<and>
   queries (snd (check_membership cfg g uid s)) = queries s"
  by (simp add: check_membership_def)

theorem check_membership_no_channels_witness:
  "check_membership \<lparr> MANDATORY_CHANNELS = [], ADMIN_IDS = [1350513135], KINOSPEEDS = None \<rparr>
     (\<lambda>channel_id user_id. Inr LEFT) 7 (initial []) = (Inr True, initial [])"
  using check_membership_no_channels
          [of "\<lparr> MANDATORY_CHANNELS = [], ADMIN_IDS = [1350513135], KINOSPEEDS = None \<rparr>"
              "\<lambda>channel_id user_id. Inr LEFT" 7 "initial []"]
  by simp

section \<open>Properties of the handlers\<close>

text \<open>
  C1: at the configuration of bot.py, a user sends the start command and the query for
  the mandatory channel raises \<open>BadRequest\<close>. The membership check returns \<open>False\<close>,
  building the first join button raises \<open>NameError\<close> for the unbound name
  \<open>KINOSPEEDS\<close>, and no reply is sent: the state afterwards records the one query and
  nothing else. Were the name bound, to \<open>K\<close> say, the reply for two mandatory channels
  would carry two buttons with one and the same link, formatted from \<open>K\<close> and from
  neither channel.
\<close>

theorem start_join_buttons_ignore_channel:
  "start bot_py (\<lambda>channel_id user_id. Inl BadRequest)
     \<lparr> route = Start_command, effective_user = Some 7,
       message = Some (Message (Some (str ''/start'')) None None), args = [] \<rparr> (initial [])
   = (Some (NameError ''KINOSPEEDS''), (initial [])\<lparr> queries := [(-1001234567890, 7)] \<rparr>) \<and>
   start \<lparr> MANDATORY_CHANNELS = [-1001, -1002], ADMIN_IDS = [], KINOSPEEDS = Some (str ''K'') \<rparr>
     (\<lambda>channel_id user_id. Inl BadRequest)
     \<lparr> route = Start_command, effective_user = Some 7,
       message = Some (Message (Some (str ''/start'')) None None), args = [] \<rparr> (initial [])
   = (None, (initial [])\<lparr> queries := [(-1001, 7)],
        sent := [Join_channels [[InlineKeyboardButton (str ''https://t.me/c/K'')],
                                [InlineKeyboardButton (str ''https://t.me/c/K'')]]] \<rparr>)"
  by (simp add: start_def check_membership_def bot_py_def initial_def reply_to_def
                reply_with_def except_BadRequest_def Let_def str_def)

lemma check_membership_keeps:
  "user_data (snd (check_membership cfg g x s)) = user_data s \<and>
   videos (snd (check_membership cfg g x s)) = videos s \<and>
   sent (snd (check_membership cfg g x s)) = sent s"
  using loop_keeps[of g x "MANDATORY_CHANNELS cfg" s] by (simp add: check_membership_def)

lemma start_changes:
  "videos (snd (start cfg g u s)) = videos s \<and>
   (user_data (snd (start cfg g u s)) = user_data s \<or>
    (\<exists>x. effective_user u = Some x \<and>
         user_data (snd (start cfg g u s)) = user_data (set_verified x s)))"
proof (cases "effective_user u")
  case None
  then show ?thesis by (simp add: start_def)
next
  case (Some x)
  obtain r s1 where chk: "check_membership cfg g x s = (r, s1)"
    by (cases "check_membership cfg g x s")
  have keep: "user_data s1 = user_data s" "videos s1 = videos s"
    using check_membership_keeps[of cfg g x s] chk by simp_all
  show ?thesis
  proof (cases r)
    case (Inl e)
    then show ?thesis using Some chk keep by (simp add: start_def)
  next
    case (Inr b)
    show ?thesis
    proof (cases b)
      case True
      then show ?thesis using Some chk keep Inr
        by (cases "message u")
           (simp_all add: start_def reply_to_def reply_with_def set_verified_def)
    next
      case False
      then show ?thesis using Some chk keep Inr
        by (cases "join_buttons (KINOSPEEDS cfg) (MANDATORY_CHANNELS cfg)"; cases "message u")
           (simp_all add: start_def reply_to_def reply_with_def)
    qed
  qed
qed

lemma set_verified_keeps: "verified s uid \<Longrightarrow> verified (set_verified x s) uid"
  by (simp add: verified_def set_verified_def)

lemma verified_cong: "user_data s' = user_data s \<Longrightarrow> verified s' uid = verified s uid"
  by (simp add: verified_def)

lemma start_keeps_verified: "verified s uid \<Longrightarrow> verified (snd (start cfg g u s)) uid"
  using start_changes[of cfg g u s] set_verified_keeps[of s uid]
  by (auto simp: verified_def)

lemma handle_code_keeps: "user_data (snd (handle_code u s)) = user_data s"
  by (auto simp: handle_code_def fetch_video_def reply_to_def reply_with_def Let_def
           split: option.splits prod.splits)

lemma upload_keeps: "user_data (snd (upload cfg u s)) = user_data s"
  by (auto simp: upload_def add_video_def reply_to_def reply_with_def Let_def
           split: option.splits list.splits)

lemma delete_keeps: "user_data (snd (delete cfg u s)) = user_data s"
  by (auto simp: delete_def delete_video_def reply_to_def reply_with_def Let_def
           split: option.splits list.splits bool.splits)

lemma dispatch_changes:
  "user_data (snd (dispatch cfg g u s)) = user_data s \<or>
   (\<exists>x. effective_user u = Some x \<and>
        user_data (snd (dispatch cfg g u s)) = user_data (set_verified x s))"
proof (cases "route u")
  case Start_command
  then show ?thesis using start_changes[of cfg g u s] by (simp add: dispatch_def)
qed (simp_all add: dispatch_def handle_code_keeps upload_keeps delete_keeps)

lemma dispatch_keeps_verified:
  "verified (snd (dispatch cfg g u s)) uid" if "verified s uid"
  using dispatch_changes[of cfg g u s] set_verified_keeps[OF that] that
  by (auto simp: verified_def)

lemma handle_code_lookup:
  "effective_user u = Some uid \<Longrightarrow> verified s uid \<Longrightarrow> message u = Some m \<Longrightarrow>
   message_text m = Some t \<Longrightarrow>
   fst (handle_code u s) = None \<and>
   sent (snd (handle_code u s)) =
     sent s @ [case find (\<lambda>x. fst x = upper (strip t)) (videos s) of
                 None \<Rightarrow> Code_not_found
               | Some (code, title, file_id) \<Rightarrow> Reply_video file_id title (upper (strip t))]"
  by (auto simp: handle_code_def fetch_video_def reply_to_def reply_with_def Let_def
           split: option.splits)

text \<open>
  C7: a plain-text message from a user whose session is not verified leaves
  \<open>handle_code\<close> without an exception and with the state it found: nothing is sent, no
  statement is executed on the table, no query is issued and no session changes. The same
  holds of the update as \<open>main\<close> routes it.
\<close>

theorem handle_code_unverified_silent:
  "effective_user u = Some uid \<Longrightarrow> \<not> verified s uid \<Longrightarrow>
   handle_code u s = (None, s) \<and>
   (route u = Text_message \<longrightarrow> dispatch cfg g u s = (None, s))"
  by (simp add: handle_code_def dispatch_def)

theorem handle_code_unverified_silent_witness:
  "\<not> verified (initial [(str ''X42'', str ''Demo Clip'', str ''file-1'')]) 7 \<and>
   dispatch bot_py (\<lambda>channel_id user_id. Inr MEMBER)
     \<lparr> route = Text_message, effective_user = Some 7,
       message = Some (Message (Some (str ''x42'')) None None), args = [] \<rparr>
     (initial [(str ''X42'', str ''Demo Clip'', str ''file-1'')])
   = (None, initial [(str ''X42'', str ''Demo Clip'', str ''file-1'')])"
proof -
  have h: "\<not> verified (initial [(str ''X42'', str ''Demo Clip'', str ''file-1'')]) 7"
    by (simp add: verified_def initial_def)
  show ?thesis
    using h handle_code_unverified_silent
              [of "\<lparr> route = Text_message, effective_user = Some 7,
                     message = Some (Message (Some (str ''x42'')) None None), args = [] \<rparr>" 7
                  "initial [(str ''X42'', str ''Demo Clip'', str ''file-1'')]" bot_py
                  "\<lambda>channel_id user_id. Inr MEMBER"]
    by simp
qed

text \<open>
  C8: the upload and the delete command of a user who is not in the administrator list
  leave their handlers without an exception and with the state they found, whatever the
  arguments and the replied-to message are: nothing is sent and no statement is executed
  on the table.
\<close>

theorem admin_commands_silent_for_others:
  "effective_user u = Some uid \<Longrightarrow> uid \<notin> set (ADMIN_IDS cfg) \<Longrightarrow>
   upload cfg u s = (None, s) \<and> delete cfg u s = (None, s)"
  by (simp add: upload_def delete_def is_admin_def)

theorem admin_commands_silent_for_others_witness:
  "upload bot_py
     \<lparr> route = Upload_command, effective_user = Some 7,
       message = Some (Message (Some (str ''/upload X42 Demo Clip'')) None
                         (Some (Message None (Some (str ''file-1'')) None))),
       args = [str ''X42'', str ''Demo'', str ''Clip''] \<rparr>
     (initial []) = (None, initial []) \<and>
   delete bot_py
     \<lparr> route = Upload_command, effective_user = Some 7,
       message = Some (Message (Some (str ''/upload X42 Demo Clip'')) None
                         (Some (Message None (Some (str ''file-1'')) None))),
       args = [str ''X42'', str ''Demo'', str ''Clip''] \<rparr>
     (initial []) = (None, initial [])"
  using admin_commands_silent_for_others
          [of "\<lparr> route = Upload_command, effective_user = Some 7,
                 message = Some (Message (Some (str ''/upload X42 Demo Clip'')) None
                                   (Some (Message None (Some (str ''file-1'')) None))),
                 args = [str ''X42'', str ''Demo'', str ''Clip''] \<rparr>" 7 bot_py "initial []"]
  by (simp add: bot_py_def)

text \<open>
  C9: a verified user stays verified through every handler, however the update is routed;
  the only change a handler makes to the sessions is to bind \<open>verified\<close> to \<open>True\<close> for
  the user of the update. In particular, when a verified user sends the start command and
  the membership check does not return \<open>True\<close>, the user is verified afterwards and a
  text message of that user is still looked up: the reply is the video of the row that
  the table holds for the upper-cased text, or the notice that there is none.
\<close>

theorem verified_is_monotone:
  "verified s uid \<Longrightarrow>
   verified (snd (start cfg g u s)) uid \<and>
   verified (snd (handle_code u s)) uid \<and>
   verified (snd (upload cfg u s)) uid \<and>
   verified (snd (delete cfg u s)) uid \<and>
   verified (snd (dispatch cfg g u s)) uid \<and>
   (user_data (snd (dispatch cfg g u s)) = user_data s \<or>
    (\<exists>x. effective_user u = Some x \<and>
         user_data (snd (dispatch cfg g u s)) = user_data (set_verified x s))) \<and>
   (effective_user u = Some uid \<and> fst (check_membership cfg g uid s) \<noteq> Inr True \<and>
    effective_user u' = Some uid \<and> message u' = Some m \<and> message_text m = Some t \<longrightarrow>
      verified (snd (start cfg g u s)) uid \<and>
      fst (handle_code u' (snd (start cfg g u s))) = None \<and>
      sent (snd (handle_code u' (snd (start cfg g u s)))) =
        sent (snd (start cfg g u s)) @
          [case find (\<lambda>x. fst x = upper (strip t)) (videos s) of
             None \<Rightarrow> Code_not_found
           | Some (code, title, file_id) \<Rightarrow> Reply_video file_id title (upper (strip t))])"
proof -
  assume v: "verified s uid"
  have st: "verified (snd (start cfg g u s)) uid"
    using v by (rule start_keeps_verified)
  have hc: "verified (snd (handle_code u s)) uid"
    using v by (simp add: verified_cong[OF handle_code_keeps])
  have up: "verified (snd (upload cfg u s)) uid"
    using v by (simp add: verified_cong[OF upload_keeps])
  have de: "verified (snd (delete cfg u s)) uid"
    using v by (simp add: verified_cong[OF delete_keeps])
  have di: "verified (snd (dispatch cfg g u s)) uid"
    using v by (rule dispatch_keeps_verified)
  have tbl: "videos (snd (start cfg g u s)) = videos s"
    using start_changes[of cfg g u s] by simp
  have look: "fst (handle_code u' (snd (start cfg g u s))) = None \<and>
      sent (snd (handle_code u' (snd (start cfg g u s)))) =
        sent (snd (start cfg g u s)) @
          [case find (\<lambda>x. fst x = upper (strip t)) (videos s) of
             None \<Rightarrow> Code_not_found
           | Some (code, title, file_id) \<Rightarrow> Reply_video file_id title (upper (strip t))]"
    if "effective_user u' = Some uid" "message u' = Some m" "message_text m = Some t"
    using handle_code_lookup[OF that(1) st that(2) that(3)] tbl by simp
  show ?thesis
    using st hc up de di dispatch_changes[of cfg g u s] look by blast
qed

theorem verified_is_monotone_witness:
  "verified
     (snd (start \<lparr> MANDATORY_CHANNELS = [], ADMIN_IDS = [1350513135], KINOSPEEDS = None \<rparr>
             (\<lambda>channel_id user_id. Inl BadRequest)
             \<lparr> route = Start_command, effective_user = Some 7,
               message = Some (Message (Some (str ''/start'')) None None), args = [] \<rparr>
             (initial [(str ''X42'', str ''Demo Clip'', str ''file-1'')]))) 7 \<and>
   fst (check_membership bot_py (\<lambda>channel_id user_id. Inl BadRequest) 7
          (snd (start \<lparr> MANDATORY_CHANNELS = [], ADMIN_IDS = [1350513135], KINOSPEEDS = None \<rparr>
                  (\<lambda>channel_id user_id. Inl BadRequest)
                  \<lparr> route = Start_command, effective_user = Some 7,
                    message = Some (Message (Some (str ''/start'')) None None), args = [] \<rparr>
                  (initial [(str ''X42'', str ''Demo Clip'', str ''file-1'')]))))
     \<noteq> Inr True \<and>
   sent (snd (handle_code
           \<lparr> route = Text_message, effective_user = Some 7,
             message = Some (Message (Some (str ''x42'')) None None), args = [] \<rparr>
           (snd (start bot_py (\<lambda>channel_id user_id. Inl BadRequest)
              \<lparr> route = Start_command, effective_user = Some 7,
                message = Some (Message (Some (str ''/start'')) None None), args = [] \<rparr>
              (snd (start
                 \<lparr> MANDATORY_CHANNELS = [], ADMIN_IDS = [1350513135], KINOSPEEDS = None \<rparr>
                 (\<lambda>channel_id user_id. Inl BadRequest)
                 \<lparr> route = Start_command, effective_user = Some 7,
                   message = Some (Message (Some (str ''/start'')) None None), args = [] \<rparr>
                 (initial [(str ''X42'', str ''Demo Clip'', str ''file-1'')])))))))
     = [Membership_confirmed, Reply_video (str ''file-1'') (str ''Demo Clip'') (str ''X42'')]"
proof -
  let ?g = "\<lambda>channel_id user_id. Inl BadRequest :: exn + ChatMemberStatus"
  let ?start = "\<lparr> route = Start_command, effective_user = Some (7::int),
                  message = Some (Message (Some (str ''/start'')) None None), args = [] \<rparr>"
  let ?text = "\<lparr> route = Text_message, effective_user = Some (7::int),
                 message = Some (Message (Some (str ''x42'')) None None), args = [] \<rparr>"
  let ?s = "snd (start \<lparr> MANDATORY_CHANNELS = [], ADMIN_IDS = [1350513135], KINOSPEEDS = None \<rparr>
                   ?g ?start (initial [(str ''X42'', str ''Demo Clip'', str ''file-1'')]))"
  have s: "?s = (initial [(str ''X42'', str ''Demo Clip'', str ''file-1'')])
                  \<lparr> user_data := (\<lambda>_. Map.empty)(7 := [''verified'' \<mapsto> True]),
                    sent := [Membership_confirmed] \<rparr>"
    by (simp add: start_def check_membership_def reply_to_def reply_with_def set_verified_def
                  initial_def)
  have h: "verified ?s 7"
    by (simp add: s verified_def)
  have c: "fst (check_membership bot_py ?g 7 ?s) \<noteq> Inr True"
    by (simp add: check_membership_def bot_py_def Let_def except_BadRequest_def)
  have after: "sent (snd (start bot_py ?g ?start ?s)) = [Membership_confirmed]"
    by (simp add: start_def check_membership_def bot_py_def reply_to_def reply_with_def
                  set_verified_def except_BadRequest_def initial_def Let_def)
  have code: "upper (strip (str ''x42'')) = str ''X42''"
    by (simp add: upper_def upper_char_def strip_def is_space_def str_def)
  have tbl: "videos ?s = [(str ''X42'', str ''Demo Clip'', str ''file-1'')]"
    by (simp add: start_def check_membership_def reply_to_def reply_with_def set_verified_def
                  initial_def)
  show ?thesis
    using h c verified_is_monotone[OF h, of bot_py ?g ?start ?text
                                     "Message (Some (str ''x42'')) None None" "str ''x42''"]
    by (simp add: after code tbl)
qed

end
